theory Spec2Isabelle
  imports Complex_Main "HOL-Library.List_Lexorder" "HOL-Library.Char_ord"
begin

section \<open>JavaScript numbers\<close>

text \<open>
  A JavaScript number is an IEEE binary64 value. Every finite binary64 value is a
  rational, so a number is either \<open>NaN\<close>, an infinity or \<open>Fin q\<close>. The two zeros are
  one value \<open>Fin 0\<close>: no operation of \<open>src/index.ts\<close> tells them apart. Comparison of
  two numbers is exact; arithmetic rounds its exact result to the nearest binary64
  value, ties to even (\<open>round64\<close>).
\<close>

datatype jsnum = NaN | NegInf | Fin rat | PosInf

fun js_neg :: "jsnum \<Rightarrow> jsnum" where
  "js_neg NaN = NaN"
| "js_neg NegInf = PosInf"
| "js_neg (Fin q) = Fin (- q)"
| "js_neg PosInf = NegInf"

text \<open>\<open>Math.sign\<close>: the sign of a number as \<open>-1\<close>, \<open>0\<close> or \<open>1\<close>; \<open>NaN\<close> has none.\<close>

fun js_sign :: "jsnum \<Rightarrow> jsnum" where
  "js_sign NaN = NaN"
| "js_sign NegInf = Fin (- 1)"
| "js_sign (Fin q) = Fin (sgn q)"
| "js_sign PosInf = Fin 1"

definition isNaN :: "jsnum \<Rightarrow> bool" where
  "isNaN n = (n = NaN)"

text \<open>\<open>a === b\<close> and \<open>a < b\<close> on numbers: false as soon as one side is \<open>NaN\<close>.\<close>

definition num_eq :: "jsnum \<Rightarrow> jsnum \<Rightarrow> bool" where
  "num_eq a b = (a \<noteq> NaN \<and> b \<noteq> NaN \<and> a = b)"

fun num_lt :: "jsnum \<Rightarrow> jsnum \<Rightarrow> bool" where
  "num_lt NaN b = False"
| "num_lt NegInf b = (b = PosInf \<or> (case b of Fin q \<Rightarrow> True | _ \<Rightarrow> False))"
| "num_lt (Fin p) b = (case b of Fin q \<Rightarrow> p < q | PosInf \<Rightarrow> True | _ \<Rightarrow> False)"
| "num_lt PosInf b = False"

definition num_gt :: "jsnum \<Rightarrow> jsnum \<Rightarrow> bool" where
  "num_gt a b = num_lt b a"

definition num_le :: "jsnum \<Rightarrow> jsnum \<Rightarrow> bool" where
  "num_le a b = (num_lt a b \<or> num_eq a b)"

definition num_ge :: "jsnum \<Rightarrow> jsnum \<Rightarrow> bool" where
  "num_ge a b = (num_lt b a \<or> num_eq a b)"

subsection \<open>Rounding to binary64\<close>

function bit_length :: "int \<Rightarrow> int" where
  "bit_length n = (if n \<le> 0 then 0 else 1 + bit_length (n div 2))"
  by pat_completeness auto
termination
  by (relation "measure nat") auto

declare bit_length.simps [simp del]

definition pow2 :: "int \<Rightarrow> rat" where
  "pow2 k = (if 0 \<le> k then 2 ^ nat k else 1 / 2 ^ nat (- k))"

text \<open>For \<open>x > 0\<close>, the exponent \<open>e\<close> with \<open>2 ^ e \<le> x < 2 ^ (e + 1)\<close>.\<close>

definition exponent_of :: "rat \<Rightarrow> int" where
  "exponent_of x =
     (let (a, b) = quotient_of x;
          k = bit_length a - bit_length b
      in if pow2 k \<le> x then k else k - 1)"

definition round_half_even :: "rat \<Rightarrow> int" where
  "round_half_even x =
     (let n = \<lfloor>x\<rfloor>; r = x - of_int n
      in if r < 1 / 2 then n else if 1 / 2 < r then n + 1
         else if even n then n else n + 1)"

text \<open>
  For \<open>x > 0\<close>: the spacing of binary64 values around \<open>x\<close> is \<open>2 ^ (e - 52)\<close>, with the
  exponent held at \<open>-1022\<close> in the subnormal range, and \<open>x\<close> rounds to \<open>m\<close> such steps. The
  result overflows to infinity when it reaches \<open>2 ^ 1024\<close>: the exponent is above \<open>1023\<close>,
  or it is \<open>1023\<close> and \<open>m\<close> has reached \<open>2 ^ 53\<close>.
\<close>

definition round64_pos :: "rat \<Rightarrow> jsnum" where
  "round64_pos x =
     (let e = max (exponent_of x) (- 1022);
          ulp = pow2 (e - 52);
          m = round_half_even (x / ulp)
      in if 1023 < e \<or> (e = 1023 \<and> 2 ^ 53 \<le> m) then PosInf else Fin (of_int m * ulp))"

definition round64 :: "rat \<Rightarrow> jsnum" where
  "round64 x =
     (if x = 0 then Fin 0
      else if 0 < x then round64_pos x
      else js_neg (round64_pos (- x)))"

text \<open>\<open>a - b\<close> and \<open>a * b\<close> on numbers.\<close>

fun js_sub :: "jsnum \<Rightarrow> jsnum \<Rightarrow> jsnum" where
  "js_sub NaN b = NaN"
| "js_sub (Fin p) b =
     (case b of NaN \<Rightarrow> NaN | NegInf \<Rightarrow> PosInf | Fin q \<Rightarrow> round64 (p - q) | PosInf \<Rightarrow> NegInf)"
| "js_sub PosInf b = (case b of NaN \<Rightarrow> NaN | PosInf \<Rightarrow> NaN | _ \<Rightarrow> PosInf)"
| "js_sub NegInf b = (case b of NaN \<Rightarrow> NaN | NegInf \<Rightarrow> NaN | _ \<Rightarrow> NegInf)"

definition inf_of_sign :: "rat \<Rightarrow> jsnum" where
  "inf_of_sign s = (if s = 0 then NaN else if 0 < s then PosInf else NegInf)"

fun sign_rat :: "jsnum \<Rightarrow> rat" where
  "sign_rat NaN = 0"
| "sign_rat NegInf = - 1"
| "sign_rat (Fin q) = sgn q"
| "sign_rat PosInf = 1"

definition js_mul :: "jsnum \<Rightarrow> jsnum \<Rightarrow> jsnum" where
  "js_mul a b =
     (if a = NaN \<or> b = NaN then NaN
      else case (a, b) of
             (Fin p, Fin q) \<Rightarrow> round64 (p * q)
           | _ \<Rightarrow> inf_of_sign (sign_rat a * sign_rat b))"

section \<open>JavaScript values, errors and the host's built-ins\<close>

text \<open>
  The values of a decoded record that the handler's closures tell apart with \<open>typeof\<close>:
  \<open>undefined\<close>, \<open>null\<close>, booleans, numbers, strings, arrays and plain objects. An object
  is the list of its own properties, with distinct names. \<open>JFun src\<close> is a function object
  (a method found on a prototype), \<open>src\<close> being the text that \<open>String\<close> gives for it.
  Characters stand for the code units of a JavaScript string. Binary data, dates and
  big integers, which the store's encoding can hold as well, are outside the model.
\<close>

datatype jsval =
    JUndefined
  | JNull
  | JBool bool
  | JNum jsnum
  | JStr string
  | JArr "jsval list"
  | JObj "(string \<times> jsval) list"
  | JFun string

text \<open>
  What is thrown is an \<open>Error\<close> object, as the engine and the libraries throw them:
  its \<open>name\<close>, its \<open>message\<close> and its \<open>code\<close> property (\<open>undefined\<close> when it has none).
\<close>

datatype js_error = Error string string jsval

fun err_name :: "js_error \<Rightarrow> string" where
  "err_name (Error n m c) = n"

fun err_message :: "js_error \<Rightarrow> string" where
  "err_message (Error n m c) = m"

fun err_code :: "js_error \<Rightarrow> jsval" where
  "err_code (Error n m c) = c"

definition TypeError :: "string \<Rightarrow> js_error" where
  "TypeError m = Error ''TypeError'' m JUndefined"

type_synonym 'a result = "js_error + 'a"

text \<open>
  The built-ins of the JavaScript engine that \<open>src/index.ts\<close> calls and whose results
  come from Unicode tables, locale data or decimal conversion of binary64. They are
  parameters of the model: \<open>Number(s)\<close>, \<open>String(n)\<close> for a number \<open>n\<close>, \<open>parseInt(s)\<close>,
  \<open>s.toLowerCase()\<close>, \<open>s.trim()\<close>, \<open>a.localeCompare(b)\<close>, and the value of a property
  that a value inherits from its prototype chain (\<open>undefined\<close> when there is none).
\<close>

record host =
  Number :: "string \<Rightarrow> jsnum"
  NumberToString :: "jsnum \<Rightarrow> string"
  parseInt :: "string \<Rightarrow> jsnum"
  toLowerCase :: "string \<Rightarrow> string"
  trim :: "string \<Rightarrow> string"
  localeCompare :: "string \<Rightarrow> string \<Rightarrow> jsnum"
  inherited :: "jsval \<Rightarrow> string \<Rightarrow> jsval"

fun typeof :: "jsval \<Rightarrow> string" where
  "typeof JUndefined = ''undefined''"
| "typeof JNull = ''object''"
| "typeof (JBool b) = ''boolean''"
| "typeof (JNum n) = ''number''"
| "typeof (JStr s) = ''string''"
| "typeof (JArr xs) = ''object''"
| "typeof (JObj kvs) = ''object''"
| "typeof (JFun src) = ''function''"

subsection \<open>Property read \<open>value[name]\<close>\<close>

definition is_digit :: "char \<Rightarrow> bool" where
  "is_digit c = (CHR ''0'' \<le> c \<and> c \<le> CHR ''9'')"

definition decimal :: "string \<Rightarrow> int" where
  "decimal s = foldl (\<lambda>n c. 10 * n + (of_char c - of_char CHR ''0'')) 0 s"

text \<open>An array index is a canonical decimal numeral below \<open>2 ^ 32 - 1\<close>.\<close>

definition array_index :: "string \<Rightarrow> nat option" where
  "array_index p =
     (if p \<noteq> [] \<and> list_all is_digit p \<and> (if p = ''0'' then True else hd p \<noteq> CHR ''0'')
         \<and> decimal p < 4294967295
      then Some (nat (decimal p)) else None)"

fun js_get :: "host \<Rightarrow> jsval \<Rightarrow> string \<Rightarrow> jsval result" where
  "js_get h JUndefined p = Inl (TypeError ''cannot read a property of undefined'')"
| "js_get h JNull p = Inl (TypeError ''cannot read a property of null'')"
| "js_get h (JObj kvs) p =
     Inr (case map_of kvs p of Some x \<Rightarrow> x | None \<Rightarrow> inherited h (JObj kvs) p)"
| "js_get h (JArr xs) p =
     Inr (if p = ''length'' then JNum (Fin (of_nat (length xs)))
          else case array_index p of
                 Some i \<Rightarrow> if i < length xs then xs ! i else inherited h (JArr xs) p
               | None \<Rightarrow> inherited h (JArr xs) p)"
| "js_get h (JStr s) p =
     Inr (if p = ''length'' then JNum (Fin (of_nat (length s)))
          else case array_index p of
                 Some i \<Rightarrow> if i < length s then JStr [s ! i] else inherited h (JStr s) p
               | None \<Rightarrow> inherited h (JStr s) p)"
| "js_get h v p = Inr (inherited h v p)"

subsection \<open>\<open>String(value)\<close>\<close>

text \<open>
  An array is the join of its elements with commas, \<open>undefined\<close> and \<open>null\<close> elements
  giving the empty string. A plain object gives \<open>[object Object]\<close>; when it has an own
  property \<open>toString\<close> (which in decoded data is not callable) the conversion finds no
  primitive and throws.
\<close>

fun String :: "host \<Rightarrow> jsval \<Rightarrow> string result"
  and join :: "host \<Rightarrow> jsval list \<Rightarrow> string result" where
  "String h JUndefined = Inr ''undefined''"
| "String h JNull = Inr ''null''"
| "String h (JBool b) = Inr (if b then ''true'' else ''false'')"
| "String h (JNum n) = Inr (NumberToString h n)"
| "String h (JStr s) = Inr s"
| "String h (JArr xs) = join h xs"
| "String h (JObj kvs) =
     (if map_of kvs ''toString'' = None then Inr ''[object Object]''
      else Inl (TypeError ''cannot convert object to primitive value''))"
| "String h (JFun src) = Inr src"
| "join h [] = Inr []"
| "join h (x # xs) =
     (case (if x = JUndefined \<or> x = JNull then Inr [] else String h x) of
        Inl e \<Rightarrow> Inl e
      | Inr a \<Rightarrow>
          if xs = [] then Inr a
          else (case join h xs of Inl e \<Rightarrow> Inl e | Inr b \<Rightarrow> Inr (a @ '','' @ b)))"

text \<open>\<open>a < b\<close> on two strings: the first differing code unit decides, a proper prefix is smaller.\<close>

fun string_lt :: "string \<Rightarrow> string \<Rightarrow> bool" where
  "string_lt [] [] = False"
| "string_lt [] (y # ys) = True"
| "string_lt (x # xs) [] = False"
| "string_lt (x # xs) (y # ys) =
     (if x = y then string_lt xs ys else (of_char x :: nat) < of_char y)"

section \<open>The field filter of the search handler\<close>

definition on_value :: "'a result \<Rightarrow> ('a \<Rightarrow> 'b) \<Rightarrow> 'b result" where
  "on_value r f = (case r of Inl e \<Rightarrow> Inl e | Inr x \<Rightarrow> Inr (f x))"

text \<open>
  The closure stored in \<open>searchOptions.filters\<close> (\<open>src/index.ts\<close>, lines 319 to 370), as
  a function of the request's \<open>filterField\<close>, \<open>filterOperator\<close>, \<open>filterValue\<close> and of the
  record value it is applied to. The \<open>switch\<close> compares the operator with each label in
  turn; the \<open>typeof\<close> tests are the cases of \<open>fieldValue\<close>.
\<close>

definition field_filter ::
  "host \<Rightarrow> string \<Rightarrow> string \<Rightarrow> string \<Rightarrow> jsval \<Rightarrow> bool result" where
  "field_filter h filterField filterOperator filterValue v =
     (case js_get h v filterField of
        Inl e \<Rightarrow> Inl e
      | Inr fieldValue \<Rightarrow>
          (let numValue = Number h filterValue;
               isNumeric = (\<not> isNaN numValue \<and> trim h filterValue \<noteq> '''')
           in if filterOperator = ''='' then
                (case fieldValue of
                   JStr str \<Rightarrow> Inr (toLowerCase h str = toLowerCase h filterValue)
                 | JNum n \<Rightarrow>
                     if isNumeric then Inr (num_eq n numValue)
                     else on_value (String h fieldValue) (\<lambda>t. t = filterValue)
                 | _ \<Rightarrow> on_value (String h fieldValue) (\<lambda>t. t = filterValue))
              else if filterOperator = ''!='' then
                (case fieldValue of
                   JStr str \<Rightarrow> Inr (toLowerCase h str \<noteq> toLowerCase h filterValue)
                 | JNum n \<Rightarrow>
                     if isNumeric then Inr (\<not> num_eq n numValue)
                     else on_value (String h fieldValue) (\<lambda>t. t \<noteq> filterValue)
                 | _ \<Rightarrow> on_value (String h fieldValue) (\<lambda>t. t \<noteq> filterValue))
              else if filterOperator = ''>'' then
                (case fieldValue of
                   JNum n \<Rightarrow> Inr (if isNumeric then num_gt n numValue else False)
                 | _ \<Rightarrow> on_value (String h fieldValue) (\<lambda>t. string_lt filterValue t))
              else if filterOperator = ''<'' then
                (case fieldValue of
                   JNum n \<Rightarrow> Inr (if isNumeric then num_lt n numValue else False)
                 | _ \<Rightarrow> on_value (String h fieldValue) (\<lambda>t. string_lt t filterValue))
              else if filterOperator = ''>='' then
                (case fieldValue of
                   JNum n \<Rightarrow> Inr (if isNumeric then num_ge n numValue else False)
                 | _ \<Rightarrow> on_value (String h fieldValue) (\<lambda>t. \<not> string_lt t filterValue))
              else if filterOperator = ''<='' then
                (case fieldValue of
                   JNum n \<Rightarrow> Inr (if isNumeric then num_le n numValue else False)
                 | _ \<Rightarrow> on_value (String h fieldValue) (\<lambda>t. \<not> string_lt filterValue t))
              else Inr True))"

subsection \<open>The equality predicate as the specification words it\<close>

definition case_insensitive_equal :: "host \<Rightarrow> string \<Rightarrow> string \<Rightarrow> bool" where
  "case_insensitive_equal h a b = (toLowerCase h a = toLowerCase h b)"

text \<open>
  The literal parses as a number: \<open>Number\<close> gives a number for it and it is not blank
  (\<open>Number\<close> reads a blank string as \<open>0\<close>).
\<close>

definition parses_as_number :: "host \<Rightarrow> string \<Rightarrow> bool" where
  "parses_as_number h s = (Number h s \<noteq> NaN \<and> trim h s \<noteq> '''')"

definition stringified_equal :: "host \<Rightarrow> jsval \<Rightarrow> string \<Rightarrow> bool result" where
  "stringified_equal h x s = on_value (String h x) (\<lambda>t. t = s)"

fun equals_spec :: "host \<Rightarrow> jsval \<Rightarrow> string \<Rightarrow> bool result" where
  "equals_spec h (JStr a) s = Inr (case_insensitive_equal h a s)"
| "equals_spec h (JNum n) s =
     (if parses_as_number h s then Inr (num_eq n (Number h s))
      else stringified_equal h (JNum n) s)"
| "equals_spec h x s = stringified_equal h x s"

definition ordering_operators :: "string list" where
  "ordering_operators = [''>'', ''<'', ''>='', ''<='']"

definition known_operators :: "string list" where
  "known_operators = [''='', ''!='', ''>'', ''<'', ''>='', ''<='']"

text \<open>
  The lexicographic comparison that an ordering operator names, on the order of
  strings by code unit.
\<close>

definition lexicographic :: "string \<Rightarrow> string \<Rightarrow> string \<Rightarrow> bool" where
  "lexicographic operator a b =
     (if operator = ''>'' then a > b
      else if operator = ''<'' then a < b
      else if operator = ''>='' then a \<ge> b
      else a \<le> b)"

section \<open>An instance of the host\<close>

text \<open>
  The theorems hold for every host. To run the model on examples, \<open>test_host\<close> gives
  the built-ins on the inputs the examples use: \<open>toLowerCase\<close> and \<open>trim\<close> on code units
  below 256, \<open>Number\<close> and \<open>parseInt\<close> on unsigned decimal integers, \<open>String\<close> on
  integers, code-unit order for \<open>localeCompare\<close>, and no inherited property.
\<close>

definition is_space :: "char \<Rightarrow> bool" where
  "is_space c = ((of_char c :: nat) \<in> {9, 10, 11, 12, 13, 32, 160})"

definition trim_spaces :: "string \<Rightarrow> string" where
  "trim_spaces s = rev (dropWhile is_space (rev (dropWhile is_space s)))"

definition lower_char :: "char \<Rightarrow> char" where
  "lower_char c =
     (let n = (of_char c :: nat)
      in if (65 \<le> n \<and> n \<le> 90) \<or> (192 \<le> n \<and> n \<le> 222 \<and> n \<noteq> 215)
         then char_of (n + 32) else c)"

function digits_of :: "int \<Rightarrow> string" where
  "digits_of n =
     (if n < 10 then [char_of (48 + n)] else digits_of (n div 10) @ [char_of (48 + n mod 10)])"
  by pat_completeness auto
termination
  by (relation "measure nat") auto

declare digits_of.simps [simp del]

definition integer_string :: "rat \<Rightarrow> string" where
  "integer_string q =
     (if q < 0 then ''-'' @ digits_of \<lfloor>- q\<rfloor> else digits_of \<lfloor>q\<rfloor>)"

definition test_Number :: "string \<Rightarrow> jsnum" where
  "test_Number s =
     (let t = trim_spaces s in if list_all is_digit t then Fin (of_int (decimal t)) else NaN)"

definition test_parseInt :: "string \<Rightarrow> jsnum" where
  "test_parseInt s =
     (let t = takeWhile is_digit (dropWhile is_space s)
      in if t = [] then NaN else Fin (of_int (decimal t)))"

definition test_NumberToString :: "jsnum \<Rightarrow> string" where
  "test_NumberToString n =
     (case n of NaN \<Rightarrow> ''NaN'' | NegInf \<Rightarrow> ''-Infinity'' | PosInf \<Rightarrow> ''Infinity''
      | Fin q \<Rightarrow> integer_string q)"

definition test_localeCompare :: "string \<Rightarrow> string \<Rightarrow> jsnum" where
  "test_localeCompare a b =
     (if string_lt a b then Fin (- 1) else if string_lt b a then Fin 1 else Fin 0)"

definition test_host :: host where
  "test_host =
     \<lparr> Number = test_Number,
       NumberToString = test_NumberToString,
       parseInt = test_parseInt,
       toLowerCase = map lower_char,
       trim = trim_spaces,
       localeCompare = test_localeCompare,
       inherited = (\<lambda>v p. JUndefined) \<rparr>"

section \<open>The search handler\<close>

subsection \<open>Comparators for \<open>searchOptions.sort\<close>\<close>

text \<open>
  The two closures of lines 382 to 403: the one for \<open>sortOrder === "asc"\<close> and the one
  for every other \<open>sortOrder\<close>.
\<close>

definition sort_asc :: "host \<Rightarrow> string \<Rightarrow> jsval \<Rightarrow> jsval \<Rightarrow> jsnum result" where
  "sort_asc h sortBy a b =
     (case js_get h a sortBy of
        Inl e \<Rightarrow> Inl e
      | Inr aVal \<Rightarrow>
          (case js_get h b sortBy of
             Inl e \<Rightarrow> Inl e
           | Inr bVal \<Rightarrow>
               Inr (case aVal of
                      JStr x \<Rightarrow> (case bVal of JStr y \<Rightarrow> localeCompare h x y | _ \<Rightarrow> Fin 0)
                    | JNum m \<Rightarrow> (case bVal of JNum n \<Rightarrow> js_sub m n | _ \<Rightarrow> Fin 0)
                    | _ \<Rightarrow> Fin 0)))"

definition sort_desc :: "host \<Rightarrow> string \<Rightarrow> jsval \<Rightarrow> jsval \<Rightarrow> jsnum result" where
  "sort_desc h sortBy a b =
     (case js_get h a sortBy of
        Inl e \<Rightarrow> Inl e
      | Inr aVal \<Rightarrow>
          (case js_get h b sortBy of
             Inl e \<Rightarrow> Inl e
           | Inr bVal \<Rightarrow>
               Inr (case aVal of
                      JStr x \<Rightarrow> (case bVal of JStr y \<Rightarrow> localeCompare h y x | _ \<Rightarrow> Fin 0)
                    | JNum m \<Rightarrow> (case bVal of JNum n \<Rightarrow> js_sub n m | _ \<Rightarrow> Fin 0)
                    | _ \<Rightarrow> Fin 0)))"

definition sort_comparator :: "host \<Rightarrow> string \<Rightarrow> string \<Rightarrow> jsval \<Rightarrow> jsval \<Rightarrow> jsnum result" where
  "sort_comparator h sortBy sortOrder =
     (if sortOrder = ''asc'' then sort_asc h sortBy else sort_desc h sortBy)"

subsection \<open>Request parameters and search options\<close>

text \<open>
  A request carries the route parameter \<open>dbName\<close> and its query string, read with
  \<open>url.searchParams.get\<close> (\<open>None\<close> is the \<open>null\<close> of an absent parameter). \<open>x || d\<close>
  on a string or \<open>null\<close> is \<open>or_else x d\<close>.
\<close>

record request =
  dbName :: string
  searchParams :: "string \<Rightarrow> string option"

definition or_else :: "string option \<Rightarrow> string \<Rightarrow> string" where
  "or_else x d = (case x of None \<Rightarrow> d | Some s \<Rightarrow> if s = [] then d else s)"

record params =
  query :: string
  filterField :: string
  filterOperator :: string
  filterValue :: string
  sortBy :: string
  sortOrder :: string
  limit :: jsnum
  customPath :: string

definition read_params :: "host \<Rightarrow> request \<Rightarrow> params" where
  "read_params h req =
     \<lparr> query = or_else (searchParams req ''query'') '''',
       filterField = or_else (searchParams req ''filterField'') '''',
       filterOperator = or_else (searchParams req ''filterOperator'') ''='',
       filterValue = or_else (searchParams req ''filterValue'') '''',
       sortBy = or_else (searchParams req ''sortBy'') '''',
       sortOrder = or_else (searchParams req ''sortOrder'') ''asc'',
       limit = parseInt h (or_else (searchParams req ''limit'') ''100''),
       customPath = or_else (searchParams req ''path'') '''' \<rparr>"

text \<open>The options object handed to the search library.\<close>

record searchOptions =
  opt_limit :: jsnum
  opt_filters :: "(jsval \<Rightarrow> bool result) list option"
  opt_deepSearch :: "string option"
  opt_sort :: "(jsval \<Rightarrow> jsval \<Rightarrow> jsnum result) option"

definition build_searchOptions :: "host \<Rightarrow> params \<Rightarrow> searchOptions" where
  "build_searchOptions h p =
     \<lparr> opt_limit = js_mul (limit p) (Fin 10),
       opt_filters =
         (if filterField p \<noteq> '''' \<and> filterField p \<noteq> ''__none__'' \<and> filterValue p \<noteq> ''''
          then Some [field_filter h (filterField p) (filterOperator p) (filterValue p)]
          else None),
       opt_deepSearch = (if query p \<noteq> '''' then Some (query p) else None),
       opt_sort =
         (if sortBy p \<noteq> '''' \<and> sortBy p \<noteq> ''__none__''
          then Some (sort_comparator h (sortBy p) (sortOrder p))
          else None) \<rparr>"

subsection \<open>The store and the search library\<close>

text \<open>
  A record returned by the search library: its key and its value. Keys and
  sub-database names are strings.
\<close>

record entry =
  entry_key :: string
  entry_value :: jsval

record 'r DatabaseConfig =
  name :: string
  path :: string
  collections :: "string list"
  dbHandle :: "'r option"

text \<open>
  What the handler reads from outside: the constant \<open>DB_PATH\<close>, the registry
  \<open>activeDatabases\<close> (in insertion order), and the calls into \<open>lmdb\<close> and \<open>xlmdb\<close>, each of
  which returns or throws: \<open>open({path, ...})\<close>, \<open>rootDb.getKeys()\<close>,
  \<open>rootDb.openDB({name})\<close> and \<open>search(subDb, searchOptions)\<close>. The libraries are not
  part of the repository; they are parameters of the model, \<open>'r\<close> being the type of
  root handles and \<open>'s\<close> that of sub-database handles.
\<close>

record ('r, 's) store =
  DB_PATH :: string
  activeDatabases :: "(string \<times> 'r DatabaseConfig) list"
  lmdb_open :: "string \<Rightarrow> 'r result"
  getKeys :: "'r \<Rightarrow> string list result"
  openDB :: "'r \<Rightarrow> string \<Rightarrow> 's result"
  search :: "'s \<Rightarrow> searchOptions \<Rightarrow> entry list result"

text \<open>The lines written by \<open>console.log\<close> and \<open>console.error\<close>, in order.\<close>

datatype log_line =
    LogSearchRequest string string
  | LogActiveDatabases "string list"
  | LogReadingFrom string
  | LogFoundSubDatabases nat
  | LogFoundRecords nat string
  | LogFailedToRead string "string + js_error"
  | LogTotalRecords nat
  | LogErrorReading js_error

text \<open>\<open>subDbError.message || subDbError\<close>\<close>

definition message_or_error :: "js_error \<Rightarrow> string + js_error" where
  "message_or_error e = (if err_message e \<noteq> '''' then Inl (err_message e) else Inr e)"

text \<open>\<open>String(error)\<close> for an \<open>Error\<close> object.\<close>

definition error_text :: "js_error \<Rightarrow> string" where
  "error_text e =
     (if err_name e = '''' then err_message e
      else if err_message e = '''' then err_name e
      else err_name e @ '': '' @ err_message e)"

definition READERS_FULL :: jsval where
  "READERS_FULL = JNum (Fin (- 30790))"

subsection \<open>The loop over the sub-databases\<close>

text \<open>The part of the loop body that can throw: opening the sub-database and searching it.\<close>

definition sub_search :: "('r, 's) store \<Rightarrow> 'r \<Rightarrow> searchOptions \<Rightarrow> string \<Rightarrow> entry list result" where
  "sub_search st rootDb opts key =
     (case openDB st rootDb key of
        Inl e \<Rightarrow> Inl e
      | Inr subDb \<Rightarrow> search st subDb opts)"

definition prefixed :: "string \<Rightarrow> entry \<Rightarrow> entry" where
  "prefixed key r = \<lparr> entry_key = key @ '':'' @ entry_key r, entry_value = entry_value r \<rparr>"

fun read_sub_databases ::
  "('r, 's) store \<Rightarrow> 'r \<Rightarrow> searchOptions \<Rightarrow> string list \<Rightarrow>
     entry list \<times> log_line list \<Rightarrow> entry list \<times> log_line list" where
  "read_sub_databases st rootDb opts [] acc = acc"
| "read_sub_databases st rootDb opts (key # keys) (results, logs) =
     (case sub_search st rootDb opts key of
        Inr subDbResults \<Rightarrow>
          if length subDbResults > 0
          then read_sub_databases st rootDb opts keys
                 (results @ map (prefixed key) subDbResults,
                  logs @ [LogFoundRecords (length subDbResults) key])
          else read_sub_databases st rootDb opts keys (results, logs)
      | Inl subDbError \<Rightarrow>
          if err_code subDbError \<noteq> READERS_FULL
          then read_sub_databases st rootDb opts keys
                 (results, logs @ [LogFailedToRead key (message_or_error subDbError)])
          else read_sub_databases st rootDb opts keys (results, logs))"

subsection \<open>\<open>results.slice(0, limit)\<close>\<close>

definition truncate :: "rat \<Rightarrow> int" where
  "truncate q = (if q < 0 then \<lceil>q\<rceil> else \<lfloor>q\<rfloor>)"

fun slice0 :: "'a list \<Rightarrow> jsnum \<Rightarrow> 'a list" where
  "slice0 xs NaN = []"
| "slice0 xs NegInf = []"
| "slice0 xs PosInf = xs"
| "slice0 xs (Fin q) =
     (let len = int (length xs);
          relativeEnd = truncate q;
          final = (if relativeEnd < 0 then max (len + relativeEnd) 0 else min relativeEnd len)
      in take (nat final) xs)"

subsection \<open>The handler\<close>

text \<open>
  The JSON bodies the handler answers with: \<open>{results, count}\<close>, and
  \<open>{error, results, count}\<close> when the database cannot be read. Nothing that the model
  evaluates outside the inner \<open>try\<close> throws, so the outer \<open>catch\<close> (status 500) has
  no case.
\<close>

datatype response =
    Results "entry list" nat
  | ReadFailure string "entry list" nat

fun response_results :: "response \<Rightarrow> entry list" where
  "response_results (Results rs c) = rs"
| "response_results (ReadFailure msg rs c) = rs"

fun response_count :: "response \<Rightarrow> nat" where
  "response_count (Results rs c) = c"
| "response_count (ReadFailure msg rs c) = c"

text \<open>\<open>customPath || dbConfig?.path || DB_PATH\<close>\<close>

definition dbPath_of :: "('r, 's) store \<Rightarrow> 'r DatabaseConfig option \<Rightarrow> string \<Rightarrow> string" where
  "dbPath_of st dbConfig custom =
     (if custom \<noteq> '''' then custom
      else case dbConfig of
             Some c \<Rightarrow> if path c \<noteq> '''' then path c else DB_PATH st
           | None \<Rightarrow> DB_PATH st)"

text \<open>\<open>dbConfig?.dbHandle || open({path: dbPath, ...})\<close>, then \<open>Array.from(rootDb.getKeys())\<close>.\<close>

definition open_root :: "('r, 's) store \<Rightarrow> 'r DatabaseConfig option \<Rightarrow> string \<Rightarrow> 'r result" where
  "open_root st dbConfig dbPath =
     (case dbConfig of
        Some c \<Rightarrow> (case dbHandle c of Some r \<Rightarrow> Inr r | None \<Rightarrow> lmdb_open st dbPath)
      | None \<Rightarrow> lmdb_open st dbPath)"

definition root_and_keys ::
  "('r, 's) store \<Rightarrow> 'r DatabaseConfig option \<Rightarrow> string \<Rightarrow> ('r \<times> string list) result" where
  "root_and_keys st dbConfig dbPath =
     (case open_root st dbConfig dbPath of
        Inl e \<Rightarrow> Inl e
      | Inr rootDb \<Rightarrow>
          (case getKeys st rootDb of Inl e \<Rightarrow> Inl e | Inr keys \<Rightarrow> Inr (rootDb, keys)))"

definition search_handler ::
  "host \<Rightarrow> ('r, 's) store \<Rightarrow> request \<Rightarrow> response \<times> log_line list" where
  "search_handler h st req =
     (let p = read_params h req;
          dbConfig = map_of (activeDatabases st) (dbName req);
          dbPath = dbPath_of st dbConfig (customPath p);
          log0 = [LogSearchRequest (dbName req) dbPath,
                  LogActiveDatabases (map fst (activeDatabases st)),
                  LogReadingFrom dbPath]
      in case root_and_keys st dbConfig dbPath of
           Inl error \<Rightarrow>
             (ReadFailure (''Failed to read database: '' @ error_text error) [] 0,
              log0 @ [LogErrorReading error])
         | Inr (rootDb, keys) \<Rightarrow>
             (let searchOptions = build_searchOptions h p;
                  (results, logs) =
                    read_sub_databases st rootDb searchOptions keys
                      ([], log0 @ [LogFoundSubDatabases (length keys)]);
                  limitedResults = slice0 results (limit p)
              in (Results limitedResults (length limitedResults),
                  logs @ [LogTotalRecords (length results)])))"

subsection \<open>Notions used to state the properties\<close>

definition and_then :: "'a result \<Rightarrow> ('a \<Rightarrow> 'b result) \<Rightarrow> 'b result" where
  "and_then r f = (case r of Inl e \<Rightarrow> Inl e | Inr x \<Rightarrow> f x)"

text \<open>
  Two comparator results order a pair in opposite ways: one is negative exactly when
  the other is positive, and one is zero exactly when the other is. The comparisons are
  those of JavaScript, so a \<open>NaN\<close> is neither negative, positive nor zero.
\<close>

definition opposite_sign :: "jsnum \<Rightarrow> jsnum \<Rightarrow> bool" where
  "opposite_sign r r' =
     (num_lt r' (Fin 0) = num_lt (Fin 0) r \<and>
      num_lt (Fin 0) r' = num_lt r (Fin 0) \<and>
      num_eq r' (Fin 0) = num_eq r (Fin 0))"

text \<open>
  The registry entry, the path, the first log lines, and the root handle with the
  sub-database names that a request works on.
\<close>

definition request_dbConfig :: "('r, 's) store \<Rightarrow> request \<Rightarrow> 'r DatabaseConfig option" where
  "request_dbConfig st req = map_of (activeDatabases st) (dbName req)"

definition request_dbPath :: "host \<Rightarrow> ('r, 's) store \<Rightarrow> request \<Rightarrow> string" where
  "request_dbPath h st req =
     dbPath_of st (request_dbConfig st req) (customPath (read_params h req))"

definition request_log :: "host \<Rightarrow> ('r, 's) store \<Rightarrow> request \<Rightarrow> log_line list" where
  "request_log h st req =
     [LogSearchRequest (dbName req) (request_dbPath h st req),
      LogActiveDatabases (map fst (activeDatabases st)),
      LogReadingFrom (request_dbPath h st req)]"

definition request_root :: "host \<Rightarrow> ('r, 's) store \<Rightarrow> request \<Rightarrow> ('r \<times> string list) result" where
  "request_root h st req =
     root_and_keys st (request_dbConfig st req) (request_dbPath h st req)"

definition request_options :: "host \<Rightarrow> request \<Rightarrow> searchOptions" where
  "request_options h req = build_searchOptions h (read_params h req)"

text \<open>
  What one sub-database adds to \<open>results\<close> and to the log: nothing and at most a
  failure line when opening or searching it throws, its records under prefixed keys
  and a line counting them otherwise.
\<close>

definition sub_results :: "('r, 's) store \<Rightarrow> 'r \<Rightarrow> searchOptions \<Rightarrow> string \<Rightarrow> entry list" where
  "sub_results st rootDb opts key =
     (case sub_search st rootDb opts key of
        Inl e \<Rightarrow> []
      | Inr rs \<Rightarrow> map (prefixed key) rs)"

definition failure_lines :: "string \<Rightarrow> js_error \<Rightarrow> log_line list" where
  "failure_lines key e =
     (if err_code e = READERS_FULL then [] else [LogFailedToRead key (message_or_error e)])"

definition sub_logs :: "('r, 's) store \<Rightarrow> 'r \<Rightarrow> searchOptions \<Rightarrow> string \<Rightarrow> log_line list" where
  "sub_logs st rootDb opts key =
     (case sub_search st rootDb opts key of
        Inl e \<Rightarrow> failure_lines key e
      | Inr rs \<Rightarrow> if rs = [] then [] else [LogFoundRecords (length rs) key])"

section \<open>A store to run the handler on\<close>

text \<open>The five records that the route \<open>/api/seed\<close> writes to the sub-database \<open>products\<close>.\<close>

definition product ::
  "string \<Rightarrow> rat \<Rightarrow> string \<Rightarrow> string \<Rightarrow> string list \<Rightarrow> bool \<Rightarrow> jsval" where
  "product nm price category description tags inStock =
     JObj [(''name'', JStr nm), (''price'', JNum (Fin price)), (''category'', JStr category),
           (''description'', JStr description), (''tags'', JArr (map JStr tags)),
           (''inStock'', JBool inStock)]"

definition p1 :: jsval where
  "p1 = product ''MacBook Pro'' 2499 ''electronics'' ''Powerful laptop for professionals''
          [''laptop'', ''apple'', ''professional''] True"

definition p2 :: jsval where
  "p2 = product ''Coffee Maker'' 89 ''appliances'' ''Automatic drip coffee maker''
          [''kitchen'', ''coffee'', ''beverage''] True"

definition p3 :: jsval where
  "p3 = product ''Wireless Mouse'' 29 ''electronics'' ''Ergonomic wireless mouse''
          [''peripheral'', ''wireless'', ''computer''] False"

definition p4 :: jsval where
  "p4 = product ''Gaming Chair'' 299 ''furniture'' ''Comfortable gaming chair with RGB''
          [''gaming'', ''furniture'', ''chair''] True"

definition p5 :: jsval where
  "p5 = product ''Mechanical Keyboard'' 149 ''electronics''
          ''RGB mechanical keyboard with Cherry switches''
          [''keyboard'', ''mechanical'', ''gaming''] True"

definition seed_products :: "entry list" where
  "seed_products =
     [\<lparr>entry_key = ''p1'', entry_value = p1\<rparr>, \<lparr>entry_key = ''p2'', entry_value = p2\<rparr>,
      \<lparr>entry_key = ''p3'', entry_value = p3\<rparr>, \<lparr>entry_key = ''p4'', entry_value = p4\<rparr>,
      \<lparr>entry_key = ''p5'', entry_value = p5\<rparr>]"

text \<open>
  A stand-in for the search library on examples: it keeps the records that pass every
  filter, a throwing filter making the search throw, and cuts the list at the limit. It
  ignores \<open>deepSearch\<close> and \<open>sort\<close>.
\<close>

fun passes :: "(jsval \<Rightarrow> bool result) list \<Rightarrow> jsval \<Rightarrow> bool result" where
  "passes [] v = Inr True"
| "passes (f # fs) v =
     (case f v of Inl e \<Rightarrow> Inl e | Inr b \<Rightarrow> if b then passes fs v else Inr False)"

fun keep_passing :: "(jsval \<Rightarrow> bool result) list \<Rightarrow> entry list \<Rightarrow> entry list result" where
  "keep_passing fs [] = Inr []"
| "keep_passing fs (r # rs) =
     (case passes fs (entry_value r) of
        Inl e \<Rightarrow> Inl e
      | Inr b \<Rightarrow>
          (case keep_passing fs rs of
             Inl e \<Rightarrow> Inl e
           | Inr ys \<Rightarrow> Inr (if b then r # ys else ys)))"

definition test_search :: "entry list \<Rightarrow> searchOptions \<Rightarrow> entry list result" where
  "test_search subDb opts =
     (case keep_passing (case opt_filters opts of None \<Rightarrow> [] | Some fs \<Rightarrow> fs) subDb of
        Inl e \<Rightarrow> Inl e
      | Inr rs \<Rightarrow> Inr (slice0 rs (opt_limit opts)))"

text \<open>
  A database at \<open>./data\<close> with four sub-databases: \<open>products\<close>, one that cannot be opened
  because the reader table is full, one that is corrupted, and \<open>orders\<close>.
\<close>

definition test_openDB :: "unit \<Rightarrow> string \<Rightarrow> entry list result" where
  "test_openDB r nm =
     (if nm = ''products'' then Inr seed_products
      else if nm = ''sessions''
        then Inl (Error ''Error'' ''MDB_READERS_FULL: Environment maxreaders limit reached''
                    READERS_FULL)
      else if nm = ''audit''
        then Inl (Error ''Error'' ''MDB_CORRUPTED: Located page was wrong type''
                    (JNum (Fin (- 30796))))
      else if nm = ''orders''
        then Inr [\<lparr>entry_key = ''o1'',
                   entry_value = JObj [(''product'', JStr ''p4''), (''price'', JNum (Fin 299))]\<rparr>]
      else Inr [])"

definition test_store :: "(unit, entry list) store" where
  "test_store =
     \<lparr> DB_PATH = ''./data'',
       activeDatabases = [],
       lmdb_open =
         (\<lambda>p. if p = ''./data'' then Inr ()
              else Inl (Error ''Error'' ''No such file or directory'' (JNum (Fin 2)))),
       getKeys = (\<lambda>r. Inr [''products'', ''sessions'', ''audit'', ''orders'']),
       openDB = test_openDB,
       search = test_search \<rparr>"

definition test_request :: "(string \<times> string) list \<Rightarrow> request" where
  "test_request qs = \<lparr> dbName = ''default'', searchParams = map_of qs \<rparr>"

section \<open>Auxiliary facts\<close>

lemma string_lt_iff_less: "string_lt a b \<longleftrightarrow> a < b"
  by (induction a b rule: string_lt.induct) (auto simp: less_char_def)

lemma on_value_cong: "(\<And>t. f t = g t) \<Longrightarrow> on_value r f = on_value r g"
  by (cases r) (simp_all add: on_value_def)

lemma js_neg_js_neg: "js_neg (js_neg r) = r"
  by (cases r) simp_all

lemma round64_minus: "round64 (- x) = js_neg (round64 x)"
proof -
  consider "x = 0" | "0 < x" | "x < 0" by linarith
  then show ?thesis
  proof cases
    case 1
    then show ?thesis by (simp add: round64_def)
  next
    case 2
    then show ?thesis by (simp add: round64_def)
  next
    case 3
    then show ?thesis by (simp add: round64_def js_neg_js_neg)
  qed
qed

lemma js_sub_swap: "js_sub b a = js_neg (js_sub a b)"
proof (cases a)
  case (Fin p)
  show ?thesis
  proof (cases b)
    case (Fin q)
    have "round64 (q - p) = js_neg (round64 (p - q))"
      using round64_minus [of "p - q"] by simp
    with Fin \<open>a = Fin p\<close> show ?thesis by simp
  qed (simp_all add: \<open>a = Fin p\<close>)
qed (cases b; simp)+

lemma opposite_sign_neg: "opposite_sign r (js_neg r)"
  by (cases r) (simp_all add: opposite_sign_def num_eq_def)

lemma read_sub_databases_eq:
  "read_sub_databases st rootDb opts ks (res, lg) =
     (res @ concat (map (sub_results st rootDb opts) ks),
      lg @ concat (map (sub_logs st rootDb opts) ks))"
proof (induction ks arbitrary: res lg)
  case Nil
  show ?case by simp
next
  case (Cons k ks)
  show ?case
  proof (cases "sub_search st rootDb opts k")
    case (Inl e)
    then show ?thesis
      by (simp add: Cons.IH sub_results_def sub_logs_def failure_lines_def)
  next
    case (Inr rs)
    then show ?thesis
      by (simp add: Cons.IH sub_results_def sub_logs_def)
  qed
qed

lemma search_handler_ok:
  assumes "request_root h st req = Inr (rootDb, ks)"
  shows "search_handler h st req =
    (Results (slice0 (concat (map (sub_results st rootDb (request_options h req)) ks))
                (limit (read_params h req)))
        (length (slice0 (concat (map (sub_results st rootDb (request_options h req)) ks))
                (limit (read_params h req)))),
     request_log h st req @ [LogFoundSubDatabases (length ks)]
       @ concat (map (sub_logs st rootDb (request_options h req)) ks)
       @ [LogTotalRecords (length (concat (map (sub_results st rootDb (request_options h req)) ks)))])"
  using assms
  by (simp add: search_handler_def request_root_def request_dbConfig_def request_dbPath_def
      request_log_def request_options_def Let_def read_sub_databases_eq)

lemma search_handler_failed:
  assumes "request_root h st req = Inl e"
  shows "search_handler h st req =
    (ReadFailure (''Failed to read database: '' @ error_text e) [] 0,
     request_log h st req @ [LogErrorReading e])"
  using assms
  by (simp add: search_handler_def request_root_def request_dbConfig_def request_dbPath_def
      request_log_def Let_def)

lemma length_slice0_le:
  assumes "0 \<le> q"
  shows "of_nat (length (slice0 xs (Fin q))) \<le> q"
proof -
  have t: "truncate q = \<lfloor>q\<rfloor>" using assms by (simp add: truncate_def)
  have "0 \<le> \<lfloor>q\<rfloor>" using assms by simp
  then have "length (slice0 xs (Fin q)) \<le> nat \<lfloor>q\<rfloor>"
    by (simp add: t Let_def)
  then have "int (length (slice0 xs (Fin q))) \<le> \<lfloor>q\<rfloor>" using \<open>0 \<le> \<lfloor>q\<rfloor>\<close> by linarith
  then have "of_int (int (length (slice0 xs (Fin q)))) \<le> (of_int \<lfloor>q\<rfloor> :: rat)"
    by (simp only: of_int_le_iff)
  also have "\<dots> \<le> q" by simp
  finally show ?thesis by simp
qed

text \<open>
  The limit is not checked to be positive: with a negative one, \<open>slice\<close> counts from the
  end of the list, so \<open>-1\<close> drops the last record instead of bounding the number.
\<close>

lemma slice0_minus_one: "slice0 xs (Fin (- 1)) = butlast xs"
proof -
  have "\<lceil>- 1 :: rat\<rceil> = - 1"
    using ceiling_of_int [of "- 1", where ?'a = rat] by simp
  then have t: "truncate (- 1) = - 1"
    by (simp add: truncate_def)
  have "nat (max (int (length xs) + - 1) 0) = length xs - 1"
    by (cases xs) simp_all
  then show ?thesis
    by (simp add: t Let_def butlast_conv_take)
qed

lemma slice0_NaN: "slice0 xs NaN = []"
  by simp

section \<open>The field filter\<close>

text \<open>
  Claim C1. For every host, record value \<open>v\<close>, field name \<open>f\<close> and literal \<open>s\<close>, the filter
  with operator \<open>=\<close> reads \<open>v[f]\<close> and returns what \<open>equals_spec\<close> says: case-insensitive
  equality with \<open>s\<close> when \<open>v[f]\<close> is a string; otherwise numeric equality with
  \<open>Number(s)\<close> when \<open>s\<close> parses as a number and \<open>v[f]\<close> is a number; otherwise equality of
  \<open>String(v[f])\<close> with \<open>s\<close>. Where reading \<open>v[f]\<close> or \<open>String(v[f])\<close> throws, so does the filter.
\<close>

theorem filter_equals_as_specified:
  "field_filter h f ''='' s v = and_then (js_get h v f) (\<lambda>fv. equals_spec h fv s)"
proof (cases "js_get h v f")
  case (Inl e)
  then show ?thesis by (simp add: field_filter_def and_then_def)
next
  case (Inr fv)
  then show ?thesis
    by (cases fv)
       (simp_all add: field_filter_def and_then_def Let_def isNaN_def parses_as_number_def
          stringified_equal_def case_insensitive_equal_def)
qed

text \<open>Claim C1 on the seeded record \<open>p1\<close>: a string field, a number field and a boolean field.\<close>

theorem filter_equals_as_specified_witness:
  "field_filter test_host ''name'' ''='' ''macbook pro'' p1 = Inr True
   \<and> field_filter test_host ''price'' ''='' ''2499'' p1 = Inr True
   \<and> field_filter test_host ''inStock'' ''='' ''true'' p1 = Inr True"
proof -
  have a: "and_then (js_get test_host p1 ''name'') (\<lambda>fv. equals_spec test_host fv ''macbook pro'') = Inr True"
    by code_simp
  have b: "and_then (js_get test_host p1 ''price'') (\<lambda>fv. equals_spec test_host fv ''2499'') = Inr True"
    by code_simp
  have c: "and_then (js_get test_host p1 ''inStock'') (\<lambda>fv. equals_spec test_host fv ''true'') = Inr True"
    by code_simp
  show ?thesis
    using filter_equals_as_specified [of test_host "''name''" "''macbook pro''" p1]
      filter_equals_as_specified [of test_host "''price''" "''2499''" p1]
      filter_equals_as_specified [of test_host "''inStock''" "''true''" p1]
    by (simp only: a b c)
qed

text \<open>
  Claim C2. When \<open>v[f]\<close> is not a number, each of the operators \<open>>\<close>, \<open><\<close>, \<open>>=\<close>, \<open><=\<close>
  evaluates to the lexicographic comparison of that name between \<open>String(v[f])\<close> and the
  literal, on the order of strings by code unit.
\<close>

theorem ordering_of_non_numbers:
  assumes "js_get h v f = Inr fv" and "typeof fv \<noteq> ''number''"
    and "operator \<in> set ordering_operators"
  shows "field_filter h f operator s v = on_value (String h fv) (\<lambda>t. lexicographic operator t s)"
proof -
  from assms(3) have op: "operator = ''>'' \<or> operator = ''<'' \<or> operator = ''>='' \<or> operator = ''<=''"
    by (simp add: ordering_operators_def)
  have body: "field_filter h f operator s v =
      on_value (String h fv)
        (\<lambda>t. if operator = ''>'' then string_lt s t
             else if operator = ''<'' then string_lt t s
             else if operator = ''>='' then \<not> string_lt t s
             else \<not> string_lt s t)"
    using assms(1,2) op by (cases fv) (auto simp: field_filter_def Let_def)
  show ?thesis
    unfolding body
    by (rule on_value_cong) (simp add: lexicographic_def string_lt_iff_less not_less)
qed

text \<open>Claim C2 on the name of \<open>p1\<close>, which has the literal \<open>Mac\<close> as a proper prefix.\<close>

theorem ordering_of_non_numbers_witness:
  "field_filter test_host ''name'' ''>'' ''Mac'' p1 = Inr True
   \<and> field_filter test_host ''name'' ''<='' ''Mac'' p1 = Inr False"
proof -
  have g: "js_get test_host p1 ''name'' = Inr (JStr ''MacBook Pro'')" by code_simp
  have t: "typeof (JStr ''MacBook Pro'') \<noteq> ''number''" by simp
  have o1: "''>'' \<in> set ordering_operators" by (simp add: ordering_operators_def)
  have o2: "''<='' \<in> set ordering_operators" by (simp add: ordering_operators_def)
  have r1: "on_value (String test_host (JStr ''MacBook Pro'')) (\<lambda>t. lexicographic ''>'' t ''Mac'') = Inr True"
    by code_simp
  have r2: "on_value (String test_host (JStr ''MacBook Pro'')) (\<lambda>t. lexicographic ''<='' t ''Mac'') = Inr False"
    by code_simp
  show ?thesis
    using ordering_of_non_numbers [OF g t o1, of "''Mac''"]
      ordering_of_non_numbers [OF g t o2, of "''Mac''"]
    by (simp only: r1 r2)
qed

text \<open>
  Claim C3 says that with an operator outside the six known ones the filter returns
  true for every record value. It does not for the record value \<open>null\<close>: the filter reads
  \<open>value[filterField]\<close> before it looks at the operator, and that read throws.
\<close>

theorem unknown_operator_on_null_throws:
  "''~'' \<notin> set known_operators
   \<and> field_filter test_host ''price'' ''~'' ''100'' JNull
       = Inl (TypeError ''cannot read a property of null'')
   \<and> field_filter test_host ''price'' ''~'' ''100'' JNull \<noteq> Inr True"
  by (simp add: known_operators_def field_filter_def)

text \<open>
  Claim C3, amended: for every record value other than \<open>null\<close> and \<open>undefined\<close>, every field
  name and every literal, the filter returns true when the operator is not one of \<open>=\<close>,
  \<open>!=\<close>, \<open>>\<close>, \<open><\<close>, \<open>>=\<close>, \<open><=\<close>.
\<close>

theorem unknown_operator_passes:
  assumes "v \<noteq> JNull" and "v \<noteq> JUndefined" and "operator \<notin> set known_operators"
  shows "field_filter h f operator s v = Inr True"
proof -
  from assms(1,2) obtain fv where "js_get h v f = Inr fv"
    by (cases v) simp_all
  with assms(3) show ?thesis
    by (simp add: field_filter_def known_operators_def Let_def)
qed

text \<open>The amended claim C3 on the seeded record \<open>p1\<close> with the operator \<open>~\<close>.\<close>

theorem unknown_operator_passes_witness:
  "p1 \<noteq> JNull \<and> p1 \<noteq> JUndefined \<and> ''~'' \<notin> set known_operators
   \<and> field_filter test_host ''price'' ''~'' ''100'' p1 = Inr True"
proof -
  have a: "p1 \<noteq> JNull" and b: "p1 \<noteq> JUndefined" by (simp_all add: p1_def product_def)
  have c: "''~'' \<notin> set known_operators" by (simp add: known_operators_def)
  from unknown_operator_passes [OF a b c] a b c show ?thesis by simp
qed

section \<open>The sort comparators\<close>

lemma test_localeCompare_opposite:
  "opposite_sign (test_localeCompare s t) (test_localeCompare t s)"
  by (auto simp: test_localeCompare_def opposite_sign_def num_eq_def string_lt_iff_less)

text \<open>
  Claim C4. Let \<open>a\<close> and \<open>b\<close> be record values whose field \<open>f\<close> holds two strings or two
  numbers. The comparator built for \<open>sortOrder = "desc"\<close> then orders the pair the
  opposite way to the one built for \<open>"asc"\<close>: its result is negative exactly when the
  other is positive, and zero exactly when the other is zero. For two numbers this
  comes from \<open>b - a = -(a - b)\<close>. For two strings the closures call \<open>localeCompare\<close>
  with the arguments swapped, and the property is the one the host's \<open>localeCompare\<close>
  has as a consistent comparison function; it is assumed of the host.
\<close>

theorem desc_reverses_asc:
  assumes "js_get h a f = Inr x" and "js_get h b f = Inr y"
    and "(typeof x = ''string'' \<and> typeof y = ''string'')
         \<or> (typeof x = ''number'' \<and> typeof y = ''number'')"
    and "\<And>s t. opposite_sign (localeCompare h s t) (localeCompare h t s)"
  shows "\<exists>ra rd. sort_comparator h f ''asc'' a b = Inr ra
           \<and> sort_comparator h f ''desc'' a b = Inr rd
           \<and> opposite_sign ra rd"
proof -
  from assms(3) consider (str) s t where "x = JStr s" "y = JStr t"
    | (num) m n where "x = JNum m" "y = JNum n"
    by (cases x; cases y) auto
  then show ?thesis
  proof cases
    case str
    with assms(1,2,4) show ?thesis
      by (simp add: sort_comparator_def sort_asc_def sort_desc_def)
  next
    case num
    have "opposite_sign (js_sub m n) (js_sub n m)"
      using opposite_sign_neg [of "js_sub m n"] js_sub_swap [of n m] by simp
    with num assms(1,2) show ?thesis
      by (simp add: sort_comparator_def sort_asc_def sort_desc_def)
  qed
qed

text \<open>Claim C4 on the prices of the seeded records \<open>p1\<close> and \<open>p2\<close>.\<close>

theorem desc_reverses_asc_witness:
  "sort_comparator test_host ''price'' ''asc'' p1 p2 = Inr (Fin 2410)
   \<and> sort_comparator test_host ''price'' ''desc'' p1 p2 = Inr (Fin (- 2410))
   \<and> opposite_sign (Fin 2410) (Fin (- 2410))"
proof -
  have a: "js_get test_host p1 ''price'' = Inr (JNum (Fin 2499))" by code_simp
  have b: "js_get test_host p2 ''price'' = Inr (JNum (Fin 89))" by code_simp
  have c: "(typeof (JNum (Fin 2499)) = ''string'' \<and> typeof (JNum (Fin 89)) = ''string'')
         \<or> (typeof (JNum (Fin 2499)) = ''number'' \<and> typeof (JNum (Fin 89)) = ''number'')"
    by simp
  have d: "\<And>s t. opposite_sign (localeCompare test_host s t) (localeCompare test_host t s)"
    by (simp add: test_host_def test_localeCompare_opposite)
  have asc: "sort_comparator test_host ''price'' ''asc'' p1 p2 = Inr (Fin 2410)"
    by code_simp
  have desc: "sort_comparator test_host ''price'' ''desc'' p1 p2 = Inr (Fin (- 2410))"
    by code_simp
  from desc_reverses_asc [OF a b c d] asc desc show ?thesis
    by simp
qed

section \<open>The handler\<close>

lemma read_params_query_absent:
  assumes "searchParams req ''query'' = Some ''''"
  shows "read_params h (req\<lparr>searchParams := (searchParams req)(''query'' := None)\<rparr>) = read_params h req"
  using assms by (simp add: read_params_def or_else_def)

text \<open>
  Claim C5. A request whose \<open>query\<close> parameter is the empty string sets no
  \<open>deepSearch\<close> option, so the library is given no deep-search filter, and the handler
  answers and logs exactly as for the same request without a \<open>query\<close> parameter.
\<close>

theorem empty_query_is_no_query:
  assumes "searchParams req ''query'' = Some ''''"
  shows "opt_deepSearch (request_options h req) = None
     \<and> search_handler h st (req\<lparr>searchParams := (searchParams req)(''query'' := None)\<rparr>)
         = search_handler h st req"
proof -
  have "query (read_params h req) = ''''"
    using assms by (simp add: read_params_def or_else_def)
  then have 1: "opt_deepSearch (request_options h req) = None"
    by (simp add: request_options_def build_searchOptions_def)
  have 2: "search_handler h st (req\<lparr>searchParams := (searchParams req)(''query'' := None)\<rparr>)
         = search_handler h st req"
    by (simp add: search_handler_def read_params_query_absent [OF assms])
  from 1 2 show ?thesis by simp
qed

text \<open>Claim C5 on a request with \<open>query=\<close> and \<open>limit=2\<close>.\<close>

theorem empty_query_is_no_query_witness:
  "opt_deepSearch (request_options test_host (test_request [(''query'', ''''), (''limit'', ''2'')])) = None
   \<and> search_handler test_host test_store
        ((test_request [(''query'', ''''), (''limit'', ''2'')])
           \<lparr>searchParams := (searchParams (test_request [(''query'', ''''), (''limit'', ''2'')]))
              (''query'' := None)\<rparr>)
      = search_handler test_host test_store (test_request [(''query'', ''''), (''limit'', ''2'')])"
proof -
  have a: "searchParams (test_request [(''query'', ''''), (''limit'', ''2'')]) ''query'' = Some ''''"
    by (simp add: test_request_def)
  show ?thesis by (rule empty_query_is_no_query [OF a])
qed

text \<open>
  Claim C6. When the request's limit is a number \<open>N \<ge> 0\<close>, the handler returns at most
  \<open>N\<close> records, however many the sub-databases gave, and in every answer \<open>count\<close> is
  the length of \<open>results\<close>.
\<close>

theorem limit_bounds_results:
  assumes "limit (read_params h req) = Fin q" and "0 \<le> q"
  shows "of_nat (length (response_results (fst (search_handler h st req)))) \<le> q
     \<and> response_count (fst (search_handler h st req))
         = length (response_results (fst (search_handler h st req)))"
proof (cases "request_root h st req")
  case (Inl e)
  with assms(2) show ?thesis by (simp add: search_handler_failed)
next
  case (Inr rk)
  obtain rootDb ks where "rk = (rootDb, ks)" by (cases rk)
  with Inr have "request_root h st req = Inr (rootDb, ks)" by simp
  then show ?thesis
    using length_slice0_le [OF assms(2)] by (simp add: search_handler_ok assms(1))
qed

text \<open>Claim C6 with \<open>limit=2\<close> on the test store, whose sub-databases hold six records.\<close>

theorem limit_bounds_results_witness:
  "limit (read_params test_host (test_request [(''limit'', ''2'')])) = Fin 2
   \<and> length (response_results (fst (search_handler test_host test_store
        (test_request [(''limit'', ''2'')])))) \<le> 2
   \<and> response_count (fst (search_handler test_host test_store (test_request [(''limit'', ''2'')])))
       = length (response_results (fst (search_handler test_host test_store
            (test_request [(''limit'', ''2'')]))))"
proof -
  have a: "limit (read_params test_host (test_request [(''limit'', ''2'')])) = Fin 2"
    by code_simp
  have b: "(0::rat) \<le> 2" by simp
  have "rat_of_nat (length (response_results (fst (search_handler test_host test_store
        (test_request [(''limit'', ''2'')]))))) \<le> 2
     \<and> response_count (fst (search_handler test_host test_store (test_request [(''limit'', ''2'')])))
       = length (response_results (fst (search_handler test_host test_store
            (test_request [(''limit'', ''2'')]))))"
    by (rule limit_bounds_results [OF a b])
  moreover have "\<And>n::nat. rat_of_nat n \<le> 2 \<longleftrightarrow> n \<le> 2"
    using of_nat_le_iff [where ?'a = rat, of _ 2] by simp
  ultimately show ?thesis using a by simp
qed






text \<open>
  Claim C9. When opening the root store throws \<open>e\<close>, or listing its sub-databases does,
  the handler answers with the error body: the message is
  \<open>Failed to read database: \<close> followed by \<open>String(e)\<close>, \<open>results\<close> is empty and \<open>count\<close> is 0.
\<close>

theorem root_failure_fails_request:
  assumes "open_root st (request_dbConfig st req) (request_dbPath h st req) = Inl e
     \<or> (\<exists>rootDb. open_root st (request_dbConfig st req) (request_dbPath h st req) = Inr rootDb
            \<and> getKeys st rootDb = Inl e)"
  shows "fst (search_handler h st req)
     = ReadFailure (''Failed to read database: '' @ error_text e) [] 0"
proof -
  from assms have "request_root h st req = Inl e"
    by (auto simp: request_root_def root_and_keys_def)
  then show ?thesis by (simp add: search_handler_failed)
qed

text \<open>Claim C9 on a request for a path at which no database opens.\<close>

theorem root_failure_fails_request_witness:
  "fst (search_handler test_host test_store (test_request [(''path'', ''/nowhere'')]))
     = ReadFailure ''Failed to read database: Error: No such file or directory'' [] 0"
proof -
  let ?req = "test_request [(''path'', ''/nowhere'')]"
  let ?e = "Error ''Error'' ''No such file or directory'' (JNum (Fin 2))"
  have a: "open_root test_store (request_dbConfig test_store ?req)
             (request_dbPath test_host test_store ?req) = Inl ?e"
    by code_simp
  have b: "''Failed to read database: '' @ error_text ?e
      = ''Failed to read database: Error: No such file or directory''"
    by (simp add: error_text_def)
  from root_failure_fails_request [OF disjI1, OF a] show ?thesis
    by (simp only: b)
qed

lemma read_params_operator_update:
  "read_params h (req\<lparr>searchParams := (searchParams req)(''filterOperator'' := operator)\<rparr>)
     = (read_params h req)\<lparr>filterOperator := or_else operator ''=''\<rparr>"
  by (simp add: read_params_def)

text \<open>
  Claim C10. When the request's \<open>filterValue\<close> is empty, or its \<open>filterField\<close> is empty or
  \<open>__none__\<close>, the options carry no filter, and the handler answers and logs the same
  whatever the \<open>filterOperator\<close> parameter is, present or not. A filter for fields equal
  to the empty string can therefore not be asked for.
\<close>

theorem no_filter_without_field_or_value:
  assumes "filterValue (read_params h req) = ''''
     \<or> filterField (read_params h req) = ''''
     \<or> filterField (read_params h req) = ''__none__''"
  shows "opt_filters (request_options h req) = None
     \<and> search_handler h st
          (req\<lparr>searchParams := (searchParams req)(''filterOperator'' := operator)\<rparr>)
         = search_handler h st req"
proof -
  let ?req' = "req\<lparr>searchParams := (searchParams req)(''filterOperator'' := operator)\<rparr>"
  have 1: "opt_filters (request_options h req) = None"
    using assms by (auto simp: request_options_def build_searchOptions_def)
  have rp: "read_params h ?req' = (read_params h req)\<lparr>filterOperator := or_else operator ''=''\<rparr>"
    by (rule read_params_operator_update)
  have cp: "customPath (read_params h ?req') = customPath (read_params h req)"
    and lm: "limit (read_params h ?req') = limit (read_params h req)"
    by (simp_all add: rp)
  have ro: "request_options h ?req' = request_options h req"
    using assms by (auto simp: request_options_def rp build_searchOptions_def)
  have cfg: "request_dbConfig st ?req' = request_dbConfig st req"
    by (simp add: request_dbConfig_def)
  have pth: "request_dbPath h st ?req' = request_dbPath h st req"
    by (simp only: request_dbPath_def cfg cp)
  have lg: "request_log h st ?req' = request_log h st req"
    by (simp add: request_log_def pth)
  have rt: "request_root h st ?req' = request_root h st req"
    by (simp only: request_root_def cfg pth)
  have 2: "search_handler h st ?req' = search_handler h st req"
  proof (cases "request_root h st req")
    case (Inl e)
    then show ?thesis
      using rt by (simp add: search_handler_failed lg)
  next
    case (Inr rk)
    obtain rootDb ks where "rk = (rootDb, ks)" by (cases rk)
    with Inr have a: "request_root h st req = Inr (rootDb, ks)" by simp
    with rt have b: "request_root h st ?req' = Inr (rootDb, ks)" by simp
    show ?thesis
      by (simp only: search_handler_ok [OF a] search_handler_ok [OF b] ro lm lg)
  qed
  from 1 2 show ?thesis by simp
qed

text \<open>Claim C10 on a request that names a field and an empty value.\<close>

theorem no_filter_without_field_or_value_witness:
  "opt_filters (request_options test_host
       (test_request [(''filterField'', ''name''), (''filterOperator'', ''=''), (''filterValue'', '''')]))
     = None
   \<and> search_handler test_host test_store
        ((test_request [(''filterField'', ''name''), (''filterOperator'', ''=''), (''filterValue'', '''')])
           \<lparr>searchParams :=
              (searchParams (test_request
                 [(''filterField'', ''name''), (''filterOperator'', ''=''), (''filterValue'', '''')]))
              (''filterOperator'' := Some ''!='')\<rparr>)
     = search_handler test_host test_store
         (test_request [(''filterField'', ''name''), (''filterOperator'', ''=''), (''filterValue'', '''')])"
proof -
  let ?req = "test_request [(''filterField'', ''name''), (''filterOperator'', ''=''), (''filterValue'', '''')]"
  have "filterValue (read_params test_host ?req) = ''''"
    by (simp add: read_params_def test_request_def or_else_def)
  then have a: "filterValue (read_params test_host ?req) = ''''
     \<or> filterField (read_params test_host ?req) = ''''
     \<or> filterField (read_params test_host ?req) = ''__none__''"
    by (rule disjI1)
  show ?thesis by (rule no_filter_without_field_or_value [OF a])
qed

end
